theory Spec2Isabelle
  imports Main "HOL-Library.Multiset"
begin

section \<open>Data model of \<open>pwa.service.ts\<close>\<close>

text \<open>
  The service handles playlist commands for the browser build of the player: it
  reads and writes the IndexedDB store \<open>playlists\<close>, fetches playlist text
  through a CORS proxy, parses it with \<open>iptv-playlist-parser\<close> and posts its
  answers with \<open>window.postMessage\<close>.

  JavaScript objects are modelled as records. A property that an object of the
  source may lack is an \<open>option\<close>: \<open>None\<close> is the absent property, which
  reads as \<open>undefined\<close>.
\<close>

text \<open>
  Modelled from the spec: the header attributes of a parsed playlist (the
  declaration of \<open>ParsedPlaylist\<close> in \<open>typings\<close> is not among the sources), a
  mapping of strings to strings.
\<close>

type_synonym Header = "(string \<times> string) list"

text \<open>
  One entry of a playlist. The parser assigns no \<open>id\<close>; \<open>createPlaylistObject\<close>
  adds one. The remaining attributes (name, stream URL, group, logo, ...) are
  carried along unchanged by every operation of the service.
\<close>

record Channel =
  ch_id :: "string option"
  ch_name :: string
  ch_url :: string
  ch_attrs :: "(string \<times> string) list"

text \<open>The value of \<open>parse\<close>: the own properties \<open>header\<close> and \<open>items\<close>.\<close>

record ParsedPlaylist =
  header :: Header
  items :: "Channel list"

text \<open>
  Modelled from the spec: the enumeration \<open>PlaylistUpdateState\<close> of
  \<open>shared/playlist.interface\<close> (not among the sources); the service only ever
  writes \<open>UPDATED\<close>.
\<close>

datatype PlaylistUpdateState = NOT_CHECKED | UPDATE_AVAILABLE | UPDATED | UPDATE_FAILED

text \<open>
  The stored record \<open>Playlist\<close>. The fields are the properties the service reads
  or writes; \<open>id_p\<close> is the property \<open>id\<close>, \<open>x_id\<close> the property \<open>_id\<close> (the key
  of the store) and \<open>count_p\<close> the property \<open>count\<close>. \<open>createPlaylistObject\<close>
  sets neither \<open>position\<close>, \<open>updateDate\<close> nor \<open>updateState\<close>, and only one of
  \<open>url\<close> and \<open>filePath\<close>, so these are optional, and \<open>aggregateFavoriteChannels\<close>
  reads \<open>favorites\<close> with \<open>?.\<close>. The last two fields are the top-level properties
  \<open>header\<close> and \<open>items\<close> that the spread \<open>...refreshedPlaylist\<close> of the
  \<open>PLAYLIST_UPDATE\<close> branch copies into the record.
\<close>

record Playlist =
  id_p :: string
  x_id :: string
  filename :: string
  title :: string
  count_p :: nat
  playlist :: ParsedPlaylist
  importDate :: string
  lastUsage :: string
  favorites :: "string list option"
  autoRefresh :: bool
  url :: "string option"
  filePath :: "string option"
  position :: "int option"
  updateDate :: "nat option"
  updateState :: "PlaylistUpdateState option"
  header_top :: "Header option"
  items_top :: "Channel list option"

text \<open>
  The \<open>Partial<Playlist>\<close> that \<open>createFavoritesPlaylist\<close> builds: \<open>id\<close>, \<open>_id\<close>,
  \<open>count\<close> and \<open>playlist.items\<close> (the nested object has no other property).
\<close>

record FavoritesPlaylist =
  fav_id :: string
  fav_x_id :: string
  fav_count :: nat
  fav_playlist_items :: "Channel list"

definition GLOBAL_FAVORITES_PLAYLIST_ID :: string where
  "GLOBAL_FAVORITES_PLAYLIST_ID = ''GLOBAL_FAVORITES''"


section \<open>The store \<open>playlists\<close>\<close>

text \<open>
  Modelled from the spec: the storage collaborator (\<open>ngx-indexed-db\<close> over the
  object store configured in \<open>indexed-db.config\<close>, neither among the sources).
  The store is the list of its records in the order in which it iterates them,
  keyed by \<open>_id\<close>. \<open>getByID\<close> and \<open>getByIndex\<close> on \<open>_id\<close> answer the record with
  that key or not-found, \<open>add\<close> refuses a key that is taken, \<open>update\<close> replaces
  the record that has the key of the new value (and stores the value when no
  record has it), \<open>delete\<close> removes the record with the key.
\<close>

type_synonym store = "Playlist list"

definition getAll :: "store \<Rightarrow> Playlist list" where
  "getAll s = s"

definition getByID :: "store \<Rightarrow> string \<Rightarrow> Playlist option" where
  "getByID s k = find (\<lambda>p. x_id p = k) s"

definition getByIndex_x_id :: "store \<Rightarrow> string \<Rightarrow> Playlist option" where
  "getByIndex_x_id s v = find (\<lambda>p. x_id p = v) s"

definition add :: "store \<Rightarrow> Playlist \<Rightarrow> store" where
  "add s p = (if getByID s (x_id p) = None then s @ [p] else s)"

definition update :: "store \<Rightarrow> Playlist \<Rightarrow> store" where
  "update s p =
     (if getByID s (x_id p) = None then s @ [p]
      else map (\<lambda>q. if x_id q = x_id p then p else q) s)"

definition delete :: "store \<Rightarrow> string \<Rightarrow> store" where
  "delete s k = filter (\<lambda>p. x_id p \<noteq> k) s"

section \<open>Global favorites\<close>

text \<open>\<open>playlist.favorites.includes(channel.id)\<close>: an absent id is in no list of strings.\<close>

definition array_includes :: "string list \<Rightarrow> string option \<Rightarrow> bool" where
  "array_includes fs i = (case i of None \<Rightarrow> False | Some s \<Rightarrow> s \<in> set fs)"

text \<open>
  \<open>aggregateFavoriteChannels\<close>: the two nested \<open>forEach\<close> loops, pushing onto
  \<open>favorites\<close>. \<open>playlist.favorites?.length > 0\<close> is false when \<open>favorites\<close> is
  absent (\<open>undefined > 0\<close>).
\<close>

definition aggregateFavoriteChannels :: "Playlist list \<Rightarrow> Channel list" where
  "aggregateFavoriteChannels playlists =
     fold (\<lambda>p favs.
             (case favorites p of
                None \<Rightarrow> favs
              | Some fs \<Rightarrow>
                  if length fs > 0
                  then fold (\<lambda>channel acc.
                               if array_includes fs (ch_id channel) then acc @ [channel] else acc)
                         (items (playlist p)) favs
                  else favs))
       playlists []"

definition createFavoritesPlaylist :: "Channel list \<Rightarrow> FavoritesPlaylist" where
  "createFavoritesPlaylist channels =
     \<lparr> fav_id = GLOBAL_FAVORITES_PLAYLIST_ID,
       fav_x_id = GLOBAL_FAVORITES_PLAYLIST_ID,
       fav_count = length channels,
       fav_playlist_items = channels \<rparr>"


section \<open>The collaborators and the state of the service\<close>

datatype HttpErrorResponse = HttpErrorResponse (status: nat)

text \<open>
  What the service calls and does not define, as parameters: the build flag
  \<open>AppConfig.production\<close>, the value of the \<open>k\<close>-th call of akita's \<open>guid()\<close>,
  the \<open>k\<close>-th reading of the clock (milliseconds), \<open>Date.prototype.toISOString\<close>,
  \<open>parse\<close> of \<open>iptv-playlist-parser\<close>, and the outcome of an HTTP GET of a URL
  (as text for \<open>PLAYLIST_UPDATE\<close>, as an object for \<open>fetchFromUrl\<close>).
\<close>

record env =
  production :: bool
  guid_result :: "nat \<Rightarrow> string"
  clock :: "nat \<Rightarrow> nat"
  toISOString :: "nat \<Rightarrow> string"
  parse :: "string \<Rightarrow> ParsedPlaylist"
  http_get_text :: "string \<Rightarrow> HttpErrorResponse + string"
  http_get_json :: "string \<Rightarrow> HttpErrorResponse + Playlist"

text \<open>
  The payload of a posted message: a record, the favorites view, an array of
  records, \<open>undefined\<close> (a lookup by index that found nothing), or what the
  store's \<open>delete\<close> emits.
\<close>

datatype payload =
    PlaylistPayload Playlist
  | FavoritesPayload FavoritesPlaylist
  | ListPayload "Playlist list"
  | UndefinedPayload
  | DeleteOutcome

text \<open>
  The messages the service posts, by their \<open>type\<close>. \<open>ERROR\<close> carries the
  properties \<open>message\<close> and \<open>status\<close> when \<open>fetchFromUrl\<close> posts it, and nothing
  when the \<open>PLAYLIST_UPDATE\<close> branch does.
\<close>

datatype message =
    PLAYLIST_PARSE_RESPONSE payload
  | PLAYLIST_REMOVE_BY_ID_RESPONSE payload
  | PLAYLIST_GET_ALL_RESPONSE payload
  | ERROR "(string \<times> nat) option"

text \<open>
  The state the service acts on: the store, the messages posted so far, the URLs
  requested so far, the errors rethrown to a subscriber without an error
  handler, and how many times \<open>guid()\<close> and the clock have been called.
\<close>

record world =
  db :: store
  posted :: "message list"
  requested :: "string list"
  uncaught :: "HttpErrorResponse list"
  guid_calls :: nat
  clock_reads :: nat

definition guid :: "env \<Rightarrow> world \<Rightarrow> string \<times> world" where
  "guid e w = (guid_result e (guid_calls w), w\<lparr>guid_calls := Suc (guid_calls w)\<rparr>)"

text \<open>\<open>new Date()\<close> and \<open>Date.now()\<close>: one reading of the clock.\<close>

definition date_now :: "env \<Rightarrow> world \<Rightarrow> nat \<times> world" where
  "date_now e w = (clock e (clock_reads w), w\<lparr>clock_reads := Suc (clock_reads w)\<rparr>)"

definition postMessage :: "message \<Rightarrow> world \<Rightarrow> world" where
  "postMessage m w = w\<lparr>posted := posted w @ [m]\<rparr>"

definition corsProxyUrl :: "env \<Rightarrow> string" where
  "corsProxyUrl e =
     (if production e then ''https://iptvnator-playlist-parser-api.vercel.app/parse?url=''
      else ''http://localhost:3000/parse?url='')"

section \<open>Parsing and normalising\<close>

text \<open>\<open>Array.prototype.join\<close> and \<open>String.prototype.split\<close> on a separator character.\<close>

fun join :: "string \<Rightarrow> string list \<Rightarrow> string" where
  "join sep [] = []"
| "join sep [x] = x"
| "join sep (x # y # ys) = x @ sep @ join sep (y # ys)"

fun split :: "char \<Rightarrow> string \<Rightarrow> string list" where
  "split c [] = [[]]"
| "split c (x # xs) =
     (if x = c then [] # split c xs
      else (case split c xs of [] \<Rightarrow> [[x]] | l # ls \<Rightarrow> (x # l) # ls))"

definition parsePlaylist :: "env \<Rightarrow> string list \<Rightarrow> ParsedPlaylist" where
  "parsePlaylist e m3uArray = parse e (join [CHR 0x0A] m3uArray)"

definition convertFileStringToPlaylist :: "env \<Rightarrow> string \<Rightarrow> ParsedPlaylist" where
  "convertFileStringToPlaylist e m3uString = parsePlaylist e (split (CHR 0x0A) m3uString)"

datatype UploadType = URL | FILE

text \<open>
  \<open>playlist.items.map((item) => ({ id: guid(), ...item }))\<close>: \<open>guid()\<close> is called
  for every item, and the spread of the item comes after the property \<open>id\<close>, so
  an item that has an \<open>id\<close> keeps it.
\<close>

fun map_items :: "env \<Rightarrow> Channel list \<Rightarrow> world \<Rightarrow> Channel list \<times> world" where
  "map_items e [] w = ([], w)"
| "map_items e (item # rest) w =
     (let (g, w1) = guid e w;
          (rest', w2) = map_items e rest w1
      in ((case ch_id item of None \<Rightarrow> item\<lparr>ch_id := Some g\<rparr> | Some i \<Rightarrow> item) # rest', w2))"

text \<open>
  \<open>createPlaylistObject\<close>; \<open>urlOrPath\<close> and \<open>uploadType\<close> are optional parameters.
  The properties are evaluated in the order of the object literal: the items,
  then the two dates. A property \<open>url\<close> or \<open>filePath\<close> that would hold
  \<open>undefined\<close> (no \<open>urlOrPath\<close> given) is \<open>None\<close> like an absent one.
\<close>

definition createPlaylistObject ::
  "env \<Rightarrow> string \<Rightarrow> ParsedPlaylist \<Rightarrow> string option \<Rightarrow> UploadType option \<Rightarrow> world
     \<Rightarrow> Playlist \<times> world" where
  "createPlaylistObject e name pl urlOrPath uploadType w =
     (let (i, w1) = guid e w;
          (its, w2) = map_items e (items pl) w1;
          (d1, w3) = date_now e w2;
          (d2, w4) = date_now e w3
      in (\<lparr> id_p = i,
            x_id = i,
            filename = name,
            title = name,
            count_p = length (items pl),
            playlist = pl\<lparr>items := its\<rparr>,
            importDate = toISOString e d1,
            lastUsage = toISOString e d2,
            favorites = Some [],
            autoRefresh = False,
            url = (if uploadType = Some URL then urlOrPath else None),
            filePath = (if uploadType = Some FILE then urlOrPath else None),
            position = None,
            updateDate = None,
            updateState = None,
            header_top = None,
            items_top = None \<rparr>, w4))"

section \<open>The command handler\<close>

text \<open>
  \<open>playlists.sort((a, b) => a.position - b.position)\<close>. The difference is \<open>NaN\<close>
  (here \<open>None\<close>) when a position is absent, and the sort reads a \<open>NaN\<close> from
  the comparator as \<open>+0\<close>. ECMAScript asks for a stable sort where the comparator
  is consistent and leaves the order to the engine where it is not; the model
  is the stable insertion sort.
\<close>

definition compare_position :: "Playlist \<Rightarrow> Playlist \<Rightarrow> int option" where
  "compare_position a b =
     (case (position a, position b) of (Some x, Some y) \<Rightarrow> Some (x - y) | _ \<Rightarrow> None)"

definition SortCompare :: "('a \<Rightarrow> 'a \<Rightarrow> int option) \<Rightarrow> 'a \<Rightarrow> 'a \<Rightarrow> int" where
  "SortCompare comparefn x y = (case comparefn x y of None \<Rightarrow> 0 | Some v \<Rightarrow> v)"

fun sort_insert :: "('a \<Rightarrow> 'a \<Rightarrow> int option) \<Rightarrow> 'a \<Rightarrow> 'a list \<Rightarrow> 'a list" where
  "sort_insert comparefn x [] = [x]"
| "sort_insert comparefn x (y # ys) =
     (if SortCompare comparefn x y \<le> 0 then x # y # ys else y # sort_insert comparefn x ys)"

definition array_sort :: "('a \<Rightarrow> 'a \<Rightarrow> int option) \<Rightarrow> 'a list \<Rightarrow> 'a list" where
  "array_sort comparefn xs = foldr (sort_insert comparefn) xs []"

text \<open>
  The object literal of the \<open>PLAYLIST_UPDATE\<close> branch:
  \<open>{ ...currentPlaylist, ...refreshedPlaylist, count: refreshedPlaylist.items.length,
  updateDate: Date.now(), updateState: PlaylistUpdateState.UPDATED }\<close>.
  The spread of the parsed playlist writes its own properties \<open>header\<close> and
  \<open>items\<close> into the record itself; the property \<open>playlist\<close> is the current one.
\<close>

definition refresh_merge :: "Playlist \<Rightarrow> ParsedPlaylist \<Rightarrow> nat \<Rightarrow> Playlist" where
  "refresh_merge currentPlaylist refreshedPlaylist now =
     currentPlaylist
       \<lparr> header_top := Some (header refreshedPlaylist),
         items_top := Some (items refreshedPlaylist),
         count_p := length (items refreshedPlaylist),
         updateDate := Some now,
         updateState := Some UPDATED \<rparr>"

text \<open>
  One request of the \<open>PLAYLIST_UPDATE_POSITIONS\<close> branch, for the element of the
  payload with the key \<open>k\<close> at \<open>index\<close>: read the record, write it back with
  \<open>position: index\<close>. A key that is not stored gives a value without a key,
  which the store does not take.
\<close>

definition update_position :: "nat \<times> string \<Rightarrow> store \<Rightarrow> store" where
  "update_position r s =
     (case getByID s (snd r) of
        None \<Rightarrow> s
      | Some p \<Rightarrow> update s (p\<lparr>position := Some (int (fst r))\<rparr>))"

text \<open>
  The commands, by their \<open>type\<close>, with the properties of the payload the branch
  reads: \<open>PLAYLIST_PARSE\<close> title, playlist lines and path; \<open>PLAYLIST_SAVE_DETAILS\<close>
  \<open>_id\<close> and title; \<open>PLAYLIST_UPDATE_FAVORITES\<close> id and favorites;
  \<open>PLAYLIST_PARSE_BY_URL\<close> url; \<open>PLAYLIST_UPDATE\<close> id and url;
  \<open>PLAYLIST_UPDATE_POSITIONS\<close> the \<open>_id\<close> of each element of the payload, in its
  order. \<open>OTHER\<close> is any other type.
\<close>

datatype command =
    PLAYLIST_PARSE string "string list" "string option"
  | PLAYLIST_GET_BY_ID string
  | PLAYLIST_REMOVE_BY_ID string
  | PLAYLIST_GET_ALL
  | PLAYLIST_SAVE_DETAILS string string
  | PLAYLIST_UPDATE_FAVORITES string "string list option"
  | PLAYLIST_PARSE_BY_URL string
  | PLAYLIST_UPDATE string string
  | PLAYLIST_UPDATE_POSITIONS "string list"
  | OTHER

definition sendPlaylistWithGlobalFavorites :: "world \<Rightarrow> world" where
  "sendPlaylistWithGlobalFavorites w =
     postMessage
       (PLAYLIST_PARSE_RESPONSE
          (FavoritesPayload (createFavoritesPlaylist (aggregateFavoriteChannels (getAll (db w))))))
       w"

definition fetchFromUrl :: "env \<Rightarrow> string \<Rightarrow> world \<Rightarrow> world" where
  "fetchFromUrl e u w =
     (let target = corsProxyUrl e @ u;
          w1 = w\<lparr>requested := requested w @ [target]\<rparr>
      in (case http_get_json e target of
            Inl err \<Rightarrow>
              (postMessage (ERROR (Some (''something went wrong'', status err))) w1)
                \<lparr>uncaught := uncaught w1 @ [err]\<rparr>
          | Inr response \<Rightarrow>
              postMessage (PLAYLIST_PARSE_RESPONSE (PlaylistPayload response))
                (w1\<lparr>db := add (db w1) response\<rparr>)))"

text \<open>
  \<open>sendIpcEvent\<close>. Each command runs to its end before the next one: the reads
  and writes of one command are not interleaved with those of another, and the
  requests of \<open>PLAYLIST_UPDATE_POSITIONS\<close> run one after the other in the order of
  the payload. Where a lookup by id finds nothing, the spread of \<open>undefined\<close>
  gives a value without \<open>_id\<close>, which the store does not take: nothing is
  written and nothing is posted (in \<open>PLAYLIST_UPDATE\<close> the object literal has
  read the clock by then).
\<close>

fun sendIpcEvent :: "env \<Rightarrow> command \<Rightarrow> world \<Rightarrow> world" where
  "sendIpcEvent e (PLAYLIST_PARSE ttl lns path) w =
     (let parsedPlaylist = parsePlaylist e lns;
          (playlistObject, w1) = createPlaylistObject e ttl parsedPlaylist path (Some FILE) w
      in postMessage (PLAYLIST_PARSE_RESPONSE (PlaylistPayload playlistObject))
           (w1\<lparr>db := add (db w1) playlistObject\<rparr>))"
| "sendIpcEvent e (PLAYLIST_GET_BY_ID i) w =
     (if i = GLOBAL_FAVORITES_PLAYLIST_ID then sendPlaylistWithGlobalFavorites w
      else postMessage
             (PLAYLIST_PARSE_RESPONSE
                (case getByIndex_x_id (db w) i of
                   None \<Rightarrow> UndefinedPayload
                 | Some p \<Rightarrow> PlaylistPayload p))
             w)"
| "sendIpcEvent e (PLAYLIST_REMOVE_BY_ID i) w =
     postMessage (PLAYLIST_REMOVE_BY_ID_RESPONSE DeleteOutcome) (w\<lparr>db := delete (db w) i\<rparr>)"
| "sendIpcEvent e PLAYLIST_GET_ALL w =
     postMessage
       (PLAYLIST_GET_ALL_RESPONSE (ListPayload (array_sort compare_position (getAll (db w)))))
       w"
| "sendIpcEvent e (PLAYLIST_SAVE_DETAILS i ttl) w =
     (case getByID (db w) i of
        None \<Rightarrow> w
      | Some p \<Rightarrow>
          postMessage (PLAYLIST_GET_ALL_RESPONSE (PlaylistPayload (p\<lparr>title := ttl\<rparr>)))
            (w\<lparr>db := update (db w) (p\<lparr>title := ttl\<rparr>)\<rparr>))"
| "sendIpcEvent e (PLAYLIST_UPDATE_FAVORITES i fs) w =
     (case getByID (db w) i of
        None \<Rightarrow> w
      | Some p \<Rightarrow> w\<lparr>db := update (db w) (p\<lparr>favorites := fs\<rparr>)\<rparr>)"
| "sendIpcEvent e (PLAYLIST_PARSE_BY_URL u) w = fetchFromUrl e u w"
| "sendIpcEvent e (PLAYLIST_UPDATE i u) w =
     (let target = corsProxyUrl e @ u;
          w1 = w\<lparr>requested := requested w @ [target]\<rparr>
      in (case http_get_text e target of
            Inl err \<Rightarrow> (postMessage (ERROR None) w1)\<lparr>uncaught := uncaught w1 @ [err]\<rparr>
          | Inr response \<Rightarrow>
              (let refreshedPlaylist = convertFileStringToPlaylist e response
               in (case getByID (db w1) i of
                     None \<Rightarrow> snd (date_now e w1)
                   | Some currentPlaylist \<Rightarrow>
                       (let (now, w2) = date_now e w1;
                            merged = refresh_merge currentPlaylist refreshedPlaylist now
                        in postMessage (PLAYLIST_GET_ALL_RESPONSE (PlaylistPayload merged))
                             (w2\<lparr>db := update (db w2) merged\<rparr>))))))"
| "sendIpcEvent e (PLAYLIST_UPDATE_POSITIONS ks) w =
     w\<lparr>db := fold update_position (enumerate 0 ks) (db w)\<rparr>"
| "sendIpcEvent e OTHER w = w"


section \<open>Example values\<close>

text \<open>
  Concrete channels, records and collaborators, on which the theorems are
  instantiated. The parser of the example takes every non-empty line for the
  name of an entry, and every fetch of a text answers with the lines \<open>x\<close> and
  \<open>y\<close>.
\<close>

definition example_channel :: "string \<Rightarrow> Channel" where
  "example_channel i =
     \<lparr> ch_id = Some i, ch_name = i, ch_url = ''http://example.org/'' @ i, ch_attrs = [] \<rparr>"

definition example_item :: "string \<Rightarrow> Channel" where
  "example_item n =
     \<lparr> ch_id = None, ch_name = n, ch_url = ''http://example.org/'' @ n, ch_attrs = [] \<rparr>"

definition example_playlist ::
  "string \<Rightarrow> Channel list \<Rightarrow> string list option \<Rightarrow> int option \<Rightarrow> Playlist" where
  "example_playlist k cs fs pos =
     \<lparr> id_p = k, x_id = k, filename = k, title = k, count_p = length cs,
       playlist = \<lparr> header = [], items = cs \<rparr>,
       importDate = ''2024-01-01T00:00:00.000Z'', lastUsage = ''2024-01-01T00:00:00.000Z'',
       favorites = fs, autoRefresh = False, url = Some (''http://example.org/'' @ k),
       filePath = None, position = pos, updateDate = None, updateState = None,
       header_top = None, items_top = None \<rparr>"

definition example_env :: env where
  "example_env =
     \<lparr> production = False,
       guid_result = (\<lambda>k. replicate (Suc k) (CHR ''g'')),
       clock = (\<lambda>k. k),
       toISOString = (\<lambda>t. replicate t (CHR ''t'')),
       parse = (\<lambda>text. \<lparr> header = [],
                        items = map example_item (filter (\<lambda>l. l \<noteq> []) (split (CHR 0x0A) text)) \<rparr>),
       http_get_text = (\<lambda>u. Inr [CHR ''x'', CHR 0x0A, CHR ''y'']),
       http_get_json = (\<lambda>u. Inl (HttpErrorResponse 404)) \<rparr>"

definition example_world :: "store \<Rightarrow> world" where
  "example_world s =
     \<lparr> db = s, posted = [], requested = [], uncaught = [], guid_calls = 0, clock_reads = 0 \<rparr>"

section \<open>Properties of the global favorites\<close>

lemma inner_fold_filter:
  "fold (\<lambda>channel acc. if P channel then acc @ [channel] else acc) cs acc0 = acc0 @ filter P cs"
  by (induction cs arbitrary: acc0) simp_all

lemma array_includes_Nil: "filter (\<lambda>c. array_includes [] (ch_id c)) cs = []"
  by (simp add: array_includes_def split: option.split)

lemma aggregate_fold:
  "fold (\<lambda>p favs.
             (case favorites p of
                None \<Rightarrow> favs
              | Some fs \<Rightarrow>
                  if length fs > 0
                  then fold (\<lambda>channel acc.
                               if array_includes fs (ch_id channel) then acc @ [channel] else acc)
                         (items (playlist p)) favs
                  else favs)) ps acc0
   = acc0 @ concat (map (\<lambda>p. case favorites p of None \<Rightarrow> []
                             | Some fs \<Rightarrow> filter (\<lambda>c. array_includes fs (ch_id c))
                                          (items (playlist p))) ps)"
proof (induction ps arbitrary: acc0)
  case Nil
  show ?case by simp
next
  case (Cons p ps)
  show ?case
    by (cases "favorites p") (simp_all add: Cons.IH inner_fold_filter array_includes_Nil)
qed

lemma aggregate_concat:
  "aggregateFavoriteChannels ps =
     concat (map (\<lambda>p. case favorites p of None \<Rightarrow> []
                      | Some fs \<Rightarrow> filter (\<lambda>c. array_includes fs (ch_id c)) (items (playlist p))) ps)"
  unfolding aggregateFavoriteChannels_def by (simp add: aggregate_fold)

lemma selected_eq:
  "(case favorites p of None \<Rightarrow> []
    | Some fs \<Rightarrow> filter (\<lambda>c. array_includes fs (ch_id c)) (items (playlist p)))
   = filter (\<lambda>c. case (ch_id c, favorites p) of (Some i, Some fs) \<Rightarrow> i \<in> set fs | _ \<Rightarrow> False)
       (items (playlist p))"
  by (cases "favorites p") (auto simp: array_includes_def split: option.splits intro: filter_cong)

text \<open>
  C3. The global favorites view, \<open>createFavoritesPlaylist\<close> of
  \<open>aggregateFavoriteChannels\<close>, holds exactly the entries whose \<open>id\<close> is in the
  \<open>favorites\<close> of their own playlist, playlist by playlist in the order of the
  collection and in each playlist's own entry order; its \<open>count\<close> is the number
  of these entries; and a playlist whose \<open>favorites\<close> are absent or empty
  contributes nothing: the view is the one of the collection without it.
\<close>

theorem global_favorites_view:
  "fav_playlist_items (createFavoritesPlaylist (aggregateFavoriteChannels ps)) =
     concat (map (\<lambda>p. filter (\<lambda>c. case (ch_id c, favorites p) of
                                      (Some i, Some fs) \<Rightarrow> i \<in> set fs
                                    | _ \<Rightarrow> False)
                        (items (playlist p))) ps)
   \<and> fav_count (createFavoritesPlaylist (aggregateFavoriteChannels ps)) =
     (\<Sum>p\<leftarrow>ps. length (filter (\<lambda>c. case (ch_id c, favorites p) of
                                      (Some i, Some fs) \<Rightarrow> i \<in> set fs
                                    | _ \<Rightarrow> False)
                        (items (playlist p))))
   \<and> (favorites q = None \<or> favorites q = Some [] \<longrightarrow>
        aggregateFavoriteChannels (ps @ q # qs) = aggregateFavoriteChannels (ps @ qs))"
proof -
  have eq: "aggregateFavoriteChannels ps =
     concat (map (\<lambda>p. filter (\<lambda>c. case (ch_id c, favorites p) of
                                      (Some i, Some fs) \<Rightarrow> i \<in> set fs
                                    | _ \<Rightarrow> False)
                        (items (playlist p))) ps)"
    by (simp add: aggregate_concat selected_eq)
  have cnt: "length (aggregateFavoriteChannels ps) =
     (\<Sum>p\<leftarrow>ps. length (filter (\<lambda>c. case (ch_id c, favorites p) of
                                      (Some i, Some fs) \<Rightarrow> i \<in> set fs
                                    | _ \<Rightarrow> False)
                        (items (playlist p))))"
    by (simp add: eq length_concat comp_def)
  have none: "favorites q = None \<or> favorites q = Some [] \<Longrightarrow>
        aggregateFavoriteChannels (ps @ q # qs) = aggregateFavoriteChannels (ps @ qs)"
    by (auto simp: aggregate_concat array_includes_Nil)
  show ?thesis
    using eq cnt none by (simp add: createFavoritesPlaylist_def)
qed

theorem global_favorites_view_witness:
  "favorites (example_playlist ''q'' [example_channel ''e''] None None) = None
   \<and> aggregateFavoriteChannels
       ([example_playlist ''p1'' [example_channel ''a'', example_channel ''b''] (Some [''a'']) None]
        @ example_playlist ''q'' [example_channel ''e''] None None
        # [example_playlist ''p2'' [example_channel ''c'', example_channel ''d''] (Some [''c'']) None])
     = aggregateFavoriteChannels
       ([example_playlist ''p1'' [example_channel ''a'', example_channel ''b''] (Some [''a'']) None]
        @ [example_playlist ''p2'' [example_channel ''c'', example_channel ''d''] (Some [''c'']) None])
   \<and> aggregateFavoriteChannels
       ([example_playlist ''p1'' [example_channel ''a'', example_channel ''b''] (Some [''a'']) None]
        @ [example_playlist ''p2'' [example_channel ''c'', example_channel ''d''] (Some [''c'']) None])
     = [example_channel ''a'', example_channel ''c'']"
proof -
  have absent: "favorites (example_playlist ''q'' [example_channel ''e''] None None) = None"
    by (simp add: example_playlist_def)
  have two: "aggregateFavoriteChannels
       ([example_playlist ''p1'' [example_channel ''a'', example_channel ''b''] (Some [''a'']) None]
        @ [example_playlist ''p2'' [example_channel ''c'', example_channel ''d''] (Some [''c'']) None])
     = [example_channel ''a'', example_channel ''c'']"
    by (simp add: aggregateFavoriteChannels_def example_playlist_def example_channel_def
        array_includes_def)
  show ?thesis
    using absent two
      global_favorites_view
        [of "[example_playlist ''p1'' [example_channel ''a'', example_channel ''b''] (Some [''a'']) None]"
            "example_playlist ''q'' [example_channel ''e''] None None"
            "[example_playlist ''p2'' [example_channel ''c'', example_channel ''d''] (Some [''c'']) None]"]
    by simp
qed









section \<open>Properties of the store and of the command handler\<close>

lemma example_env_fields:
  "production example_env = False"
  "guid_result example_env k = replicate (Suc k) (CHR ''g'')"
  "clock example_env k = k"
  "http_get_text example_env u = Inr [CHR ''x'', CHR 0x0A, CHR ''y'']"
  by (simp_all add: example_env_def)

lemma example_parse_old:
  "parsePlaylist example_env [''old''] = \<lparr> header = [], items = [example_item ''old''] \<rparr>"
  by (simp add: parsePlaylist_def example_env_def)

lemma example_parse_empty:
  "parsePlaylist example_env [] = \<lparr> header = [], items = [] \<rparr>"
  by (simp add: parsePlaylist_def example_env_def)

lemma example_refreshed:
  "convertFileStringToPlaylist example_env [CHR ''x'', CHR 0x0A, CHR ''y'']
     = \<lparr> header = [], items = [example_item ''x'', example_item ''y''] \<rparr>"
  by (simp add: convertFileStringToPlaylist_def parsePlaylist_def example_env_def)

lemma getByID_key: "getByID s k = Some p \<Longrightarrow> x_id p = k"
  unfolding getByID_def by (induction s) (auto split: if_splits)

lemma getByID_replace:
  "getByID s (x_id p) \<noteq> None \<Longrightarrow>
   getByID (map (\<lambda>q. if x_id q = x_id p then p else q) s) (x_id p) = Some p"
  unfolding getByID_def by (induction s) (auto split: if_splits)

lemma getByID_update_same: "getByID (update s p) (x_id p) = Some p"
proof (cases "getByID s (x_id p)")
  case None
  have "find (\<lambda>q. x_id q = x_id p) s = None \<Longrightarrow>
          find (\<lambda>q. x_id q = x_id p) (s @ [p]) = Some p"
    by (induction s) (auto split: if_splits)
  with None show ?thesis by (simp add: update_def getByID_def)
next
  case (Some q)
  then show ?thesis by (simp add: update_def getByID_replace)
qed


text \<open>
  C10. \<open>PLAYLIST_UPDATE_FAVORITES\<close> on the id of a stored record: afterwards the
  store holds, under that id, the record with \<open>favorites\<close> set to the value of
  the payload and every other field as it was.
\<close>

theorem update_favorites_frame:
  "getByID (db w) i = Some cur \<Longrightarrow>
   getByID (db (sendIpcEvent e (PLAYLIST_UPDATE_FAVORITES i fs) w)) i = Some (cur\<lparr>favorites := fs\<rparr>)"
proof -
  assume cur: "getByID (db w) i = Some cur"
  then have key: "x_id (cur\<lparr>favorites := fs\<rparr>) = i" by (simp add: getByID_key)
  show ?thesis
    using cur getByID_update_same [of "db w" "cur\<lparr>favorites := fs\<rparr>"] key by simp
qed

theorem update_favorites_frame_witness:
  "getByID (db (example_world [example_playlist ''p'' [example_channel ''a''] (Some [''a'']) (Some 0)])) ''p''
     = Some (example_playlist ''p'' [example_channel ''a''] (Some [''a'']) (Some 0))
   \<and> getByID
        (db (sendIpcEvent example_env (PLAYLIST_UPDATE_FAVORITES ''p'' (Some [''b'']))
               (example_world [example_playlist ''p'' [example_channel ''a''] (Some [''a'']) (Some 0)])))
        ''p''
     = Some (example_playlist ''p'' [example_channel ''a''] (Some [''b'']) (Some 0))"
proof -
  let ?P = "example_playlist ''p'' [example_channel ''a''] (Some [''a'']) (Some 0)"
  have h: "getByID (db (example_world [?P])) ''p'' = Some ?P"
    by (simp add: example_world_def getByID_def example_playlist_def)
  have upd: "?P\<lparr>favorites := Some [''b'']\<rparr>
               = example_playlist ''p'' [example_channel ''a''] (Some [''b'']) (Some 0)"
    by (simp add: example_playlist_def)
  from update_favorites_frame [OF h, of example_env "Some [''b'']"] h upd show ?thesis
    by (simp del: sendIpcEvent.simps)
qed

lemma refresh_stored:
  assumes cur: "getByID (db w) i = Some cur"
    and ok: "http_get_text e (corsProxyUrl e @ u) = Inr response"
  shows "getByID (db (sendIpcEvent e (PLAYLIST_UPDATE i u) w)) i =
           Some (refresh_merge cur (convertFileStringToPlaylist e response) (clock e (clock_reads w)))"
proof -
  let ?m = "refresh_merge cur (convertFileStringToPlaylist e response) (clock e (clock_reads w))"
  have key: "x_id ?m = i" using cur by (simp add: refresh_merge_def getByID_key)
  have "db (sendIpcEvent e (PLAYLIST_UPDATE i u) w) = update (db w) ?m"
    using cur ok by (simp add: Let_def date_now_def postMessage_def)
  then show ?thesis using getByID_update_same [of "db w" ?m] key by simp
qed

text \<open>
  C2. \<open>PLAYLIST_UPDATE\<close> on the id of a stored record, the fetch answering with a
  text: whatever the text parses to, the record stored afterwards has the \<open>id\<close>,
  \<open>_id\<close>, \<open>title\<close>, \<open>favorites\<close>, \<open>autoRefresh\<close>, \<open>importDate\<close>, \<open>url\<close> and
  \<open>filePath\<close> of the record that was stored before.
\<close>

theorem refresh_preserves:
  assumes cur: "getByID (db w) i = Some cur"
    and ok: "http_get_text e (corsProxyUrl e @ u) = Inr response"
  shows "\<exists>m. getByID (db (sendIpcEvent e (PLAYLIST_UPDATE i u) w)) i = Some m
           \<and> id_p m = id_p cur \<and> x_id m = x_id cur \<and> title m = title cur
           \<and> favorites m = favorites cur \<and> autoRefresh m = autoRefresh cur
           \<and> importDate m = importDate cur \<and> url m = url cur \<and> filePath m = filePath cur"
  using refresh_stored [OF cur ok] by (simp add: refresh_merge_def)

theorem refresh_preserves_witness:
  "getByID (db (example_world [example_playlist ''p'' [example_channel ''a''] (Some [''a'']) (Some 0)])) ''p''
     = Some (example_playlist ''p'' [example_channel ''a''] (Some [''a'']) (Some 0))
   \<and> http_get_text example_env (corsProxyUrl example_env @ ''http://example.org/p'')
     = Inr [CHR ''x'', CHR 0x0A, CHR ''y'']
   \<and> (\<exists>m. getByID
             (db (sendIpcEvent example_env (PLAYLIST_UPDATE ''p'' ''http://example.org/p'')
                    (example_world [example_playlist ''p'' [example_channel ''a''] (Some [''a'']) (Some 0)])))
             ''p'' = Some m
          \<and> id_p m = ''p'' \<and> x_id m = ''p'' \<and> title m = ''p'' \<and> favorites m = Some [''a'']
          \<and> autoRefresh m = False \<and> importDate m = ''2024-01-01T00:00:00.000Z''
          \<and> url m = Some ''http://example.org/p'' \<and> filePath m = None)"
proof -
  let ?P = "example_playlist ''p'' [example_channel ''a''] (Some [''a'']) (Some 0)"
  have h: "getByID (db (example_world [?P])) ''p'' = Some ?P"
    by (simp add: example_world_def getByID_def example_playlist_def)
  have ok: "http_get_text example_env (corsProxyUrl example_env @ ''http://example.org/p'')
              = Inr [CHR ''x'', CHR 0x0A, CHR ''y'']"
    by (simp add: example_env_def)
  from refresh_preserves [OF h ok] h ok show ?thesis
    by (simp del: sendIpcEvent.simps add: example_playlist_def)
qed

text \<open>
  C1, from the empty store: \<open>PLAYLIST_PARSE\<close> of a playlist with the one entry
  \<open>old\<close> creates the record with the id \<open>g\<close>; \<open>PLAYLIST_UPDATE\<close> of \<open>g\<close> then
  fetches a text with the entries \<open>x\<close> and \<open>y\<close>. The record stored afterwards
  has \<open>count\<close> 2 and \<open>updateState\<close> \<open>UPDATED\<close>, and the new entries as its
  top-level property \<open>items\<close>, but its \<open>playlist.items\<close> is still the one
  entry \<open>old\<close>.
\<close>

theorem refresh_keeps_stale_items:
  "map_option
     (\<lambda>m. (map ch_name (items (playlist m)), count_p m,
           map_option (map ch_name) (items_top m), updateState m))
     (getByID
        (db (sendIpcEvent example_env (PLAYLIST_UPDATE ''g'' ''http://example.org/mine'')
               (sendIpcEvent example_env (PLAYLIST_PARSE ''mine'' [''old''] (Some ''mine.m3u''))
                  (example_world []))))
        ''g'')
   = Some ([''old''], 2, Some [''x'', ''y''], Some UPDATED)"
proof -
  let ?w1 = "sendIpcEvent example_env (PLAYLIST_PARSE ''mine'' [''old''] (Some ''mine.m3u''))
               (example_world [])"
  let ?c = "fst (createPlaylistObject example_env ''mine''
                   \<lparr> header = [], items = [example_item ''old''] \<rparr>
                   (Some ''mine.m3u'') (Some FILE) (example_world []))"
  have key: "x_id ?c = ''g''"
    by (simp add: createPlaylistObject_def split_def Let_def guid_def example_env_fields
        example_world_def)
  have its: "map ch_name (items (playlist ?c)) = [''old'']"
    by (simp add: createPlaylistObject_def split_def Let_def guid_def example_item_def)
  have w1: "db ?w1 = [?c]"
    by (simp add: example_parse_old split_def Let_def postMessage_def add_def getByID_def)
       (simp add: createPlaylistObject_def split_def Let_def guid_def date_now_def
          example_world_def)
  have cur: "getByID (db ?w1) ''g'' = Some ?c"
    unfolding w1 using key by (simp add: getByID_def)
  have ok: "http_get_text example_env (corsProxyUrl example_env @ ''http://example.org/mine'')
              = Inr [CHR ''x'', CHR 0x0A, CHR ''y'']"
    by (simp add: example_env_fields)
  show ?thesis
    using refresh_stored [OF cur ok] its
    by (simp del: sendIpcEvent.simps add: refresh_merge_def example_refreshed example_item_def)
qed

text \<open>
  C8. \<open>PLAYLIST_UPDATE\<close> when the fetch fails: the store is unchanged, the one
  message posted is \<open>ERROR\<close>, the URL has been requested once and never again,
  and the clock of the merge has not been read (no merge took place).
\<close>

theorem refresh_transport_error:
  assumes err: "http_get_text e (corsProxyUrl e @ u) = Inl err"
  shows "db (sendIpcEvent e (PLAYLIST_UPDATE i u) w) = db w
       \<and> posted (sendIpcEvent e (PLAYLIST_UPDATE i u) w) = posted w @ [ERROR None]
       \<and> requested (sendIpcEvent e (PLAYLIST_UPDATE i u) w) = requested w @ [corsProxyUrl e @ u]
       \<and> clock_reads (sendIpcEvent e (PLAYLIST_UPDATE i u) w) = clock_reads w"
  using err by (simp add: Let_def postMessage_def)

theorem refresh_transport_error_witness:
  "http_get_text (example_env\<lparr>http_get_text := \<lambda>u. Inl (HttpErrorResponse 502)\<rparr>)
      (corsProxyUrl (example_env\<lparr>http_get_text := \<lambda>u. Inl (HttpErrorResponse 502)\<rparr>)
         @ ''http://example.org/p'')
     = Inl (HttpErrorResponse 502)
   \<and> db (sendIpcEvent (example_env\<lparr>http_get_text := \<lambda>u. Inl (HttpErrorResponse 502)\<rparr>)
            (PLAYLIST_UPDATE ''p'' ''http://example.org/p'')
            (example_world [example_playlist ''p'' [example_channel ''a''] (Some [''a'']) (Some 0)]))
     = [example_playlist ''p'' [example_channel ''a''] (Some [''a'']) (Some 0)]
   \<and> posted (sendIpcEvent (example_env\<lparr>http_get_text := \<lambda>u. Inl (HttpErrorResponse 502)\<rparr>)
            (PLAYLIST_UPDATE ''p'' ''http://example.org/p'')
            (example_world [example_playlist ''p'' [example_channel ''a''] (Some [''a'']) (Some 0)]))
     = [ERROR None]
   \<and> requested (sendIpcEvent (example_env\<lparr>http_get_text := \<lambda>u. Inl (HttpErrorResponse 502)\<rparr>)
            (PLAYLIST_UPDATE ''p'' ''http://example.org/p'')
            (example_world [example_playlist ''p'' [example_channel ''a''] (Some [''a'']) (Some 0)]))
     = [''http://localhost:3000/parse?url=http://example.org/p'']"
proof -
  let ?e = "example_env\<lparr>http_get_text := \<lambda>u. Inl (HttpErrorResponse 502)\<rparr>"
  have err: "http_get_text ?e (corsProxyUrl ?e @ ''http://example.org/p'')
               = Inl (HttpErrorResponse 502)"
    by simp
  have proxy: "corsProxyUrl ?e = ''http://localhost:3000/parse?url=''"
    by (simp add: corsProxyUrl_def example_env_def)
  from refresh_transport_error [OF err, of "''p''"
      "example_world [example_playlist ''p'' [example_channel ''a''] (Some [''a'']) (Some 0)]"]
    err proxy
  show ?thesis by (simp del: sendIpcEvent.simps add: example_world_def)
qed

section \<open>Properties of \<open>createPlaylistObject\<close>\<close>





section \<open>Reordering\<close>













section \<open>The answer to \<open>PLAYLIST_GET_ALL\<close>\<close>

lemma sort_insert_insort:
  "position x \<noteq> None \<Longrightarrow> \<forall>y\<in>set ys. position y \<noteq> None \<Longrightarrow>
   sort_insert compare_position x ys = insort_key (\<lambda>p. the (position p)) x ys"
  by (induction ys) (auto simp: SortCompare_def compare_position_def)

lemma array_sort_sort_key:
  "\<forall>p\<in>set s. position p \<noteq> None \<Longrightarrow>
   array_sort compare_position s = sort_key (\<lambda>p. the (position p)) s"
proof (induction s)
  case Nil
  show ?case by (simp add: array_sort_def)
next
  case (Cons x xs)
  then have IH: "array_sort compare_position xs = sort_key (\<lambda>p. the (position p)) xs"
    by simp
  have "array_sort compare_position (x # xs)
          = sort_insert compare_position x (array_sort compare_position xs)"
    by (simp add: array_sort_def)
  also have "\<dots> = insort_key (\<lambda>p. the (position p)) x (sort_key (\<lambda>p. the (position p)) xs)"
    unfolding IH using Cons.prems by (intro sort_insert_insort) simp_all
  finally show ?case by (simp add: sort_key_def)
qed

lemma get_all_sorted_with_positions:
  assumes "\<forall>p\<in>set (db w). position p \<noteq> None"
  shows "\<exists>r. posted (sendIpcEvent e PLAYLIST_GET_ALL w)
               = posted w @ [PLAYLIST_GET_ALL_RESPONSE (ListPayload r)]
           \<and> sorted (map (\<lambda>p. the (position p)) r) \<and> mset r = mset (db w)"
  using assms by (simp add: postMessage_def getAll_def array_sort_sort_key)

text \<open>
  C7, from the empty store: three \<open>PLAYLIST_PARSE\<close> create the records \<open>g\<close>,
  \<open>gg\<close> and \<open>ggg\<close>, none with a \<open>position\<close>; \<open>PLAYLIST_UPDATE_POSITIONS\<close> for
  \<open>ggg\<close>, \<open>g\<close> gives these the positions 0 and 1. Every comparison with the
  record \<open>gg\<close> is \<open>NaN\<close>, and the array that \<open>PLAYLIST_GET_ALL\<close> posts is in the
  order of the store: position 1, no position, position 0.
\<close>

theorem get_all_unsorted_without_position:
  "(case last (posted
       (fold (sendIpcEvent example_env)
          [PLAYLIST_PARSE ''a'' [] None,
           PLAYLIST_PARSE ''new'' [] None,
           PLAYLIST_PARSE ''b'' [] None,
           PLAYLIST_UPDATE_POSITIONS [''ggg'', ''g''],
           PLAYLIST_GET_ALL]
          (example_world []))) of
      PLAYLIST_GET_ALL_RESPONSE (ListPayload r) \<Rightarrow> map (\<lambda>p. (title p, x_id p, position p)) r
    | _ \<Rightarrow> [])
   = [(''a'', ''g'', Some 1), (''new'', ''gg'', None), (''b'', ''ggg'', Some 0)]"
  by (simp add: example_parse_empty createPlaylistObject_def split_def Let_def guid_def
      date_now_def postMessage_def add_def getByID_def update_def update_position_def
      enumerate_eq_zip getAll_def array_sort_def SortCompare_def compare_position_def
      example_world_def example_env_fields)

section \<open>Identifiers\<close>











end
